theory Spec2Isabelle
  imports Main
begin

section \<open>The Discord/Gemini bot: data model\<close>

text \<open>
  The file \<^verbatim>\<open>src/gemini.go\<close> holds three revisions of the same Go file, one after
  the other:
  \<^item> lines 1-212: the revision with tracing spans (model \<^verbatim>\<open>gemini-1.5-flash-001\<close>),
    whose \<^verbatim>\<open>Chat\<close> also logs the token counts of each response;
  \<^item> lines 213-398: the same exchange logic without tracing and without the token
    counts;
  \<^item> lines 399-568: the revision whose \<^verbatim>\<open>Chat\<close> switches on the first part only.

  Each \<^verbatim>\<open>Chat\<close> is embedded on its own: \<open>Chat_traced\<close> (lines 93-143),
  \<open>Chat_accum\<close> (lines 301-334) and \<open>Chat_first\<close> (lines 487-531). The first two
  are the \<^emph>\<open>accumulating\<close> variants: they scan all parts for function calls, with the
  same \<^verbatim>\<open>handleFunctionCalls\<close> (lines 145-170 and 336-361). The third is the
  \<^emph>\<open>first-part\<close> variant. \<^verbatim>\<open>fetchWebsiteContentFunc\<close>, \<^verbatim>\<open>MessageCreateHandler\<close> and
  \<^verbatim>\<open>mentionPtn\<close> are the same in all three.

  Logging (\<^verbatim>\<open>logger.Info\<close>, \<^verbatim>\<open>logger.Error\<close>) and tracing (\<^verbatim>\<open>otel\<close> spans) return
  nothing the program branches on and are left out, except for what their arguments
  dereference: \<^verbatim>\<open>resp.UsageMetadata.PromptTokenCount\<close> panics on a nil
  \<^verbatim>\<open>UsageMetadata\<close>, and that panic is part of \<open>Chat_traced\<close>.
\<close>

subsection \<open>Values of the SDK types\<close>

text \<open>
  The types \<^verbatim>\<open>genai.Part\<close>, \<^verbatim>\<open>genai.GenerateContentResponse\<close> and the discordgo
  event types are declared by the SDKs, not by this repository. They are modelled with
  the fields the program reads.

  \<open>any\<close> is a value of Go's \<^verbatim>\<open>any\<close> as it occurs in a \<^verbatim>\<open>map[string]any\<close> of
  function-call arguments (the JSON-like values the SDK decodes): nil, a boolean, a
  number, a string, a list or a nested object. The program only asks whether a value
  is a string; the payload of a number is never read and is kept as an integer. A key
  that is absent from the Go map reads as the nil interface, here \<open>None\<close>.
\<close>

datatype any =
    ANil
  | ABool bool
  | ANumber int
  | AString string
  | AList "any list"
  | AObject "(string \<times> any) list"

type_synonym args = "string \<rightharpoonup> any"

text \<open>The five implementations of the interface \<^verbatim>\<open>genai.Part\<close>.\<close>

datatype Part =
    Text string
  | Blob string string
  | FileData string string
  | FunctionCall string args
  | FunctionResponse string args

text \<open>
  A response, as the program reads it:
  \<^verbatim>\<open>
  type GenerateContentResponse struct {
      Candidates    []*Candidate
      UsageMetadata *UsageMetadata
      ...
  }
  type Candidate struct { Content *Content; ... }
  type Content   struct { Parts []Part; ... }
  type UsageMetadata struct {
      PromptTokenCount, CandidatesTokenCount, TotalTokenCount int32
  }
  \<close>
  Every pointer the program dereferences is an \<open>option\<close>, \<open>None\<close> being nil: the
  elements of \<^verbatim>\<open>Candidates\<close>, \<^verbatim>\<open>Candidate.Content\<close> and \<^verbatim>\<open>UsageMetadata\<close>. The
  program tests none of them, so reading through a nil one panics. The token counts
  are only logged; they are kept as integers. The response itself is not nil when
  \<^verbatim>\<open>SendMessage\<close> returns a nil error.

  The field \<^verbatim>\<open>Content\<close> of a candidate is named \<open>Candidate_Content\<close> here: the
  message of the chat platform has a field \<^verbatim>\<open>Content\<close> too.
\<close>

record UsageMetadata =
  PromptTokenCount :: int
  CandidatesTokenCount :: int
  TotalTokenCount :: int

record Content =
  Parts :: "Part list"

record Candidate =
  Candidate_Content :: "Content option"

record GenerateContentResponse =
  Candidates :: "Candidate option list"
  UsageMetadata :: "UsageMetadata option"

text \<open>
  The errors of the spec's taxonomy. The source builds them with \<^verbatim>\<open>errors.New\<close> and
  \<^verbatim>\<open>fmt.Errorf\<close>:
  \<^item> \<open>ModelCallError\<close>: \<^verbatim>\<open>"failed to call: %v"\<close>, \<^verbatim>\<open>"failed to send function call's response: %v"\<close>,
    \<^verbatim>\<open>"failed to send second message: %v"\<close>, carrying the transport error;
  \<^item> \<open>EmptyResponseError\<close>: \<^verbatim>\<open>"empty response from model"\<close>;
  \<^item> \<open>ArgumentTypeError\<close>: \<^verbatim>\<open>"failed to convert URL data: %v"\<close>;
  \<^item> \<open>FetchError\<close>: the error of \<^verbatim>\<open>http.Get\<close> or \<^verbatim>\<open>io.ReadAll\<close>, returned as it is;
  \<^item> \<open>UnknownToolError\<close>: \<^verbatim>\<open>"fell into function call default behavior: %v"\<close>, carrying
    the name;
  \<^item> \<open>UnexpectedPartTypeError\<close>: \<^verbatim>\<open>"failed to second response data to Text: %v"\<close>.
\<close>

datatype error =
    ModelCallError string
  | EmptyResponseError
  | ArgumentTypeError
  | FetchError string
  | UnknownToolError string
  | UnexpectedPartTypeError

text \<open>
  A Go call either returns or panics (an index out of range, a nil pointer
  dereference); \<open>Panic\<close> is the run-time panic, which nothing in this program
  recovers.
\<close>

datatype 'a outcome = Return 'a | Panic

subsection \<open>The outside world and the effects on it\<close>

text \<open>
  The two services the program calls are parameters:
  \<^item> \<open>SendMessage w history\<close> is what \<^verbatim>\<open>chat.SendMessage\<close> returns when \<open>history\<close> is
    the list of messages sent in this chat session so far, the current one last
    (a chat session sends its history with every message): a transport error or a
    response;
  \<^item> \<open>http_get w url\<close> is what \<^verbatim>\<open>http.Get(url)\<close> followed by \<^verbatim>\<open>io.ReadAll\<close> yields:
    an error or the body.

  The effects are recorded in order: the messages sent to the model, the URLs fetched,
  and the replies sent to a chat channel (channel id, text).
\<close>

record world =
  SendMessage :: "Part list list \<Rightarrow> string + GenerateContentResponse"
  http_get :: "string \<Rightarrow> string + string"

record effects =
  model_calls :: "Part list list"
  fetches :: "string list"
  replies :: "(string \<times> string) list"

section \<open>The tool\<close>

text \<open>
  \<^verbatim>\<open>fetchWebsiteContentFunc\<close> (lines 197-212, 383-398, 553-568):
  \<^verbatim>\<open>
  url, ok := args["url"].(string)
  if !ok { return nil, fmt.Errorf("failed to convert URL data: %v", args["url"]) }
  resp, err := http.Get(url)
  if err != nil { return nil, err }
  defer resp.Body.Close()
  content, err := io.ReadAll(resp.Body)
  if err != nil { return nil, err }
  return []byte(content), nil
  \<close>
\<close>

definition fetchWebsiteContentFunc ::
  "world \<Rightarrow> args \<Rightarrow> effects \<Rightarrow> (error + string) \<times> effects" where
  "fetchWebsiteContentFunc w a e =
     (case a ''url'' of
        Some (AString url) \<Rightarrow>
          (case http_get w url of
             Inl msg \<Rightarrow> (Inl (FetchError msg), e\<lparr>fetches := fetches e @ [url]\<rparr>)
           | Inr content \<Rightarrow> (Inr content, e\<lparr>fetches := fetches e @ [url]\<rparr>))
      | _ \<Rightarrow> (Inl ArgumentTypeError, e))"

section \<open>The chat exchange\<close>

text \<open>
  \<^verbatim>\<open>LimitConditionPrompt\<close> (lines 41, 251, 437), the same Japanese sentence in the three
  revisions, as the 124 bytes of its UTF-8 encoding (a Go string is a byte sequence).
\<close>

definition LimitConditionPrompt :: string where
  "LimitConditionPrompt = map char_of
     ([
       232, 191, 148, 231, 173, 148, 227, 129, 175, 229, 144, 136, 232, 168, 136, 50,
       48, 48, 48, 230, 150, 135, 229, 173, 151, 228, 187, 165, 229, 134, 133, 227,
       129, 171, 227, 129, 151, 227, 129, 166, 227, 129, 143, 227, 129, 160, 227, 129,
       149, 227, 129, 132, 227, 128, 130, 227, 129, 190, 227, 129, 159, 229, 135, 186,
       229, 138, 155, 229, 189, 162, 229, 188, 143, 227, 129, 175, 227, 131, 151, 227,
       131, 172, 227, 131, 188, 227, 131, 179, 227, 131, 134, 227, 130, 173, 227, 130,
       185, 227, 131, 136, 227, 129, 171, 227, 129, 151, 227, 129, 166, 227, 129, 143,
       227, 129, 160, 227, 129, 149, 227, 129, 132, 227, 128, 130
      ] :: nat list)"

subsection \<open>The tool loop of the accumulating variants (lines 145-170 and 336-361)\<close>

text \<open>
  \<^verbatim>\<open>handleFunctionCalls\<close> (lines 145-170, 336-361). The first loop keeps the parts that
  are function calls:
  \<^verbatim>\<open>
  ps := []genai.Part{}
  for _, p := range parts {
      if _, ok := p.(genai.FunctionCall); ok { ps = append(ps, p) }
  }
  \<close>
  The second loop runs the tool for each call named \<^verbatim>\<open>fetchWebsiteContent\<close>, stops at
  the first error, and has no \<^verbatim>\<open>default\<close> case, so a call of any other name is passed
  over:
  \<^verbatim>\<open>
  frs := []genai.Part{}
  for _, p := range ps {
      fc, _ := p.(genai.FunctionCall)
      switch fc.Name {
      case "fetchWebsiteContent":
          data, err := fetchWebsiteContentFunc(fc.Args)
          if err != nil { return nil, err }
          frs = append(frs, genai.FunctionResponse{
              Name: "fetchWebisiteContent",
              Response: map[string]any{"content": string(data)},
          })
      }
  }
  return frs, nil
  \<close>
  The name of the response is spelled \<^verbatim>\<open>fetchWebisiteContent\<close> in the source.
\<close>

fun isFunctionCall :: "Part \<Rightarrow> bool" where
  "isFunctionCall (FunctionCall n a) = True"
| "isFunctionCall _ = False"

fun handleFunctionCalls_loop ::
  "world \<Rightarrow> Part list \<Rightarrow> Part list \<Rightarrow> effects \<Rightarrow> (error + Part list) \<times> effects" where
  "handleFunctionCalls_loop w [] frs e = (Inr frs, e)"
| "handleFunctionCalls_loop w (FunctionCall n a # ps) frs e =
     (if n = ''fetchWebsiteContent'' then
        (case fetchWebsiteContentFunc w a e of
           (Inl err, e') \<Rightarrow> (Inl err, e')
         | (Inr data, e') \<Rightarrow>
             handleFunctionCalls_loop w ps
               (frs @ [FunctionResponse ''fetchWebisiteContent'' [''content'' \<mapsto> AString data]]) e')
      else handleFunctionCalls_loop w ps frs e)"
| "handleFunctionCalls_loop w (p # ps) frs e = handleFunctionCalls_loop w ps frs e"

definition handleFunctionCalls ::
  "world \<Rightarrow> Part list \<Rightarrow> effects \<Rightarrow> (error + Part list) \<times> effects" where
  "handleFunctionCalls w parts e = handleFunctionCalls_loop w (filter isFunctionCall parts) [] e"

subsection \<open>Reading the parts of a response\<close>

text \<open>
  The expression \<^verbatim>\<open>resp.Candidates[0].Content.Parts\<close> (lines 107, 136, 308, 328, 494,
  497, 518) panics when \<^verbatim>\<open>Candidates\<close> is empty (index out of range) and when the
  first candidate or its \<^verbatim>\<open>Content\<close> is nil (nil pointer dereference).
\<close>

definition Candidates0_Content_Parts :: "GenerateContentResponse \<Rightarrow> Part list outcome" where
  "Candidates0_Content_Parts resp =
     (case Candidates resp of
        [] \<Rightarrow> Panic
      | None # cs \<Rightarrow> Panic
      | Some c # cs \<Rightarrow>
          (case Candidate_Content c of
             None \<Rightarrow> Panic
           | Some ct \<Rightarrow> Return (Parts ct)))"

subsection \<open>The accumulating variant with tracing (lines 93-143)\<close>

text \<open>
  \<^verbatim>\<open>
  chat := g.model.StartChat()
  resp, err := chat.SendMessage(ctx, text)
  if err != nil { return "", fmt.Errorf("failed to call: %v", err) }
  logger.Info(fmt.Sprintf("...", resp.UsageMetadata.PromptTokenCount,
      resp.UsageMetadata.CandidatesTokenCount))
  smspan.SetAttributes(attribute.Int("prompt.token", int(resp.UsageMetadata.PromptTokenCount)))
  ...
  parts := resp.Candidates[0].Content.Parts
  if len(resp.Candidates) == 0 || len(parts) == 0 {
      return "", errors.New("empty response from model")
  }
  frs, err := g.handleFunctionCalls(parts)
  if err != nil { return "", err }
  if len(frs) == 0 {
      v, ok := parts[0].(genai.Text)
      if !ok { return "", err }
      return string(v), nil
  }
  resp2, err := chat.SendMessage(ctx, frs...)
  if err != nil { return "", fmt.Errorf("failed to send function call's response: %v", err) }
  logger.Info(fmt.Sprintf("...", resp2.UsageMetadata.PromptTokenCount,
      resp2.UsageMetadata.CandidatesTokenCount))
  ...
  part2 := resp2.Candidates[0].Content.Parts[0]
  ret, ok := part2.(genai.Text)
  if !ok { return "", fmt.Errorf("failed to second response data to Text: %v", part2) }
  return string(ret), nil
  \<close>
  The token counts are read through \<^verbatim>\<open>resp.UsageMetadata\<close> right after each
  \<^verbatim>\<open>SendMessage\<close> (lines 103-106, 130-133), before anything else is read from the
  response. \<^verbatim>\<open>resp.Candidates[0]\<close> is read before the length test, so an empty
  \<^verbatim>\<open>Candidates\<close> panics there. In \<^verbatim>\<open>return "", err\<close> after \<^verbatim>\<open>!ok\<close> the variable
  \<^verbatim>\<open>err\<close> is the nil error \<^verbatim>\<open>handleFunctionCalls\<close> just returned. The result is
  Go's pair of the reply and the error (\<open>None\<close> is nil).
\<close>

definition Chat_traced ::
  "world \<Rightarrow> string \<Rightarrow> effects \<Rightarrow> (string \<times> error option) outcome \<times> effects" where
  "Chat_traced w prompt e =
     (let text = [Text (prompt @ LimitConditionPrompt)];
          e1 = e\<lparr>model_calls := model_calls e @ [text]\<rparr>
      in case SendMessage w [text] of
           Inl err \<Rightarrow> (Return ('''', Some (ModelCallError err)), e1)
         | Inr resp \<Rightarrow>
             (case UsageMetadata resp of
                None \<Rightarrow> (Panic, e1)
              | Some usage \<Rightarrow>
                  (case Candidates0_Content_Parts resp of
                     Panic \<Rightarrow> (Panic, e1)
                   | Return parts \<Rightarrow>
                       if length (Candidates resp) = 0 \<or> length parts = 0
                       then (Return ('''', Some EmptyResponseError), e1)
                       else
                         (case handleFunctionCalls w parts e1 of
                            (Inl err, e2) \<Rightarrow> (Return ('''', Some err), e2)
                          | (Inr frs, e2) \<Rightarrow>
                              if length frs = 0 then
                                (case hd parts of
                                   Text v \<Rightarrow> (Return (v, None), e2)
                                 | _ \<Rightarrow> (Return ('''', None), e2))
                              else
                                (let e3 = e2\<lparr>model_calls := model_calls e2 @ [frs]\<rparr>
                                 in case SendMessage w [text, frs] of
                                      Inl err \<Rightarrow> (Return ('''', Some (ModelCallError err)), e3)
                                    | Inr resp2 \<Rightarrow>
                                        (case UsageMetadata resp2 of
                                           None \<Rightarrow> (Panic, e3)
                                         | Some usage2 \<Rightarrow>
                                             (case Candidates0_Content_Parts resp2 of
                                                Panic \<Rightarrow> (Panic, e3)
                                              | Return [] \<Rightarrow> (Panic, e3)
                                              | Return (Text ret # ps2) \<Rightarrow>
                                                  (Return (ret, None), e3)
                                              | Return (part2 # ps2) \<Rightarrow>
                                                  (Return ('''', Some UnexpectedPartTypeError),
                                                   e3))))))))"

subsection \<open>The accumulating variant without tracing (lines 301-334)\<close>

text \<open>
  \<^verbatim>\<open>
  chat := g.model.StartChat()
  resp, err := chat.SendMessage(ctx, genai.Text(prompt+LimitConditionPrompt))
  if err != nil { return "", fmt.Errorf("failed to call: %v", err) }
  parts := resp.Candidates[0].Content.Parts
  if len(resp.Candidates) == 0 || len(parts) == 0 {
      return "", errors.New("empty response from model")
  }
  frs, err := g.handleFunctionCalls(parts)
  if err != nil { return "", err }
  if len(frs) == 0 {
      v, ok := parts[0].(genai.Text)
      if !ok { return "", err }
      return string(v), nil
  }
  resp2, err := chat.SendMessage(ctx, frs...)
  if err != nil { return "", fmt.Errorf("failed to send function call's response: %v", err) }
  part2 := resp2.Candidates[0].Content.Parts[0]
  ret, ok := part2.(genai.Text)
  if !ok { return "", fmt.Errorf("failed to second response data to Text: %v", resp2) }
  return string(ret), nil
  \<close>
  The same as above without the token counts: \<^verbatim>\<open>UsageMetadata\<close> is not read.
\<close>

definition Chat_accum ::
  "world \<Rightarrow> string \<Rightarrow> effects \<Rightarrow> (string \<times> error option) outcome \<times> effects" where
  "Chat_accum w prompt e =
     (let text = [Text (prompt @ LimitConditionPrompt)];
          e1 = e\<lparr>model_calls := model_calls e @ [text]\<rparr>
      in case SendMessage w [text] of
           Inl err \<Rightarrow> (Return ('''', Some (ModelCallError err)), e1)
         | Inr resp \<Rightarrow>
             (case Candidates0_Content_Parts resp of
                Panic \<Rightarrow> (Panic, e1)
              | Return parts \<Rightarrow>
                  if length (Candidates resp) = 0 \<or> length parts = 0
                  then (Return ('''', Some EmptyResponseError), e1)
                  else
                    (case handleFunctionCalls w parts e1 of
                       (Inl err, e2) \<Rightarrow> (Return ('''', Some err), e2)
                     | (Inr frs, e2) \<Rightarrow>
                         if length frs = 0 then
                           (case hd parts of
                              Text v \<Rightarrow> (Return (v, None), e2)
                            | _ \<Rightarrow> (Return ('''', None), e2))
                         else
                           (let e3 = e2\<lparr>model_calls := model_calls e2 @ [frs]\<rparr>
                            in case SendMessage w [text, frs] of
                                 Inl err \<Rightarrow> (Return ('''', Some (ModelCallError err)), e3)
                               | Inr resp2 \<Rightarrow>
                                   (case Candidates0_Content_Parts resp2 of
                                      Panic \<Rightarrow> (Panic, e3)
                                    | Return [] \<Rightarrow> (Panic, e3)
                                    | Return (Text ret # ps2) \<Rightarrow> (Return (ret, None), e3)
                                    | Return (part2 # ps2) \<Rightarrow>
                                        (Return ('''', Some UnexpectedPartTypeError), e3))))))"

subsection \<open>The first-part variant (lines 487-531)\<close>

text \<open>
  \<^verbatim>\<open>
  chat := g.model.StartChat()
  resp, err := chat.SendMessage(ctx, genai.Text(prompt+LimitConditionPrompt))
  if err != nil { return "", fmt.Errorf("failed to call: %v", err) }
  if len(resp.Candidates) == 0 || len(resp.Candidates[0].Content.Parts) == 0 {
      return "", errors.New("empty response from model")
  }
  part := resp.Candidates[0].Content.Parts[0]
  switch v := part.(type) {
  case genai.Text:
      return string(v), nil
  case genai.FunctionCall:
      var data []byte
      switch v.Name {
      case "fetchWebsiteContent":
          data, err = fetchWebsiteContentFunc(v.Args)
          if err != nil { return string(data), err }
          resp2, err := chat.SendMessage(ctx, genai.FunctionResponse{
              Name: "fetchWebsiteContent",
              Response: map[string]any{"content": string(data)},
          })
          if err != nil { return "", fmt.Errorf("failed to send second message: %v", err) }
          part2 := resp2.Candidates[0].Content.Parts[0]
          ret, ok := part2.(genai.Text)
          if !ok { return "", fmt.Errorf("failed to second response data to Text: %v", resp2) }
          return string(ret), nil
      default:
          return "", fmt.Errorf("fell into function call default behavior: %v", v.Name)
      }
  default:
      return "", nil
  }
  \<close>
  Here the length test comes first and \<^verbatim>\<open>||\<close> does not evaluate its right operand when
  the left one holds; the right operand reads through the first candidate and its
  \<^verbatim>\<open>Content\<close>. When the tool fails, \<^verbatim>\<open>data\<close> is nil and \<^verbatim>\<open>string(data)\<close> is the empty
  string.
\<close>

definition Chat_first ::
  "world \<Rightarrow> string \<Rightarrow> effects \<Rightarrow> (string \<times> error option) outcome \<times> effects" where
  "Chat_first w prompt e =
     (let text = [Text (prompt @ LimitConditionPrompt)];
          e1 = e\<lparr>model_calls := model_calls e @ [text]\<rparr>
      in case SendMessage w [text] of
           Inl err \<Rightarrow> (Return ('''', Some (ModelCallError err)), e1)
         | Inr resp \<Rightarrow>
             if length (Candidates resp) = 0
             then (Return ('''', Some EmptyResponseError), e1)
             else
               (case Candidates0_Content_Parts resp of
                  Panic \<Rightarrow> (Panic, e1)
                | Return [] \<Rightarrow> (Return ('''', Some EmptyResponseError), e1)
                | Return (Text v # ps) \<Rightarrow> (Return (v, None), e1)
                | Return (FunctionCall n a # ps) \<Rightarrow>
                    if n = ''fetchWebsiteContent'' then
                      (case fetchWebsiteContentFunc w a e1 of
                         (Inl err, e2) \<Rightarrow> (Return ('''', Some err), e2)
                       | (Inr data, e2) \<Rightarrow>
                           (let fr = [FunctionResponse ''fetchWebsiteContent''
                                        [''content'' \<mapsto> AString data]];
                                e3 = e2\<lparr>model_calls := model_calls e2 @ [fr]\<rparr>
                            in case SendMessage w [text, fr] of
                                 Inl err \<Rightarrow> (Return ('''', Some (ModelCallError err)), e3)
                               | Inr resp2 \<Rightarrow>
                                   (case Candidates0_Content_Parts resp2 of
                                      Panic \<Rightarrow> (Panic, e3)
                                    | Return [] \<Rightarrow> (Panic, e3)
                                    | Return (Text ret # ps2) \<Rightarrow> (Return (ret, None), e3)
                                    | Return (part2 # ps2) \<Rightarrow>
                                        (Return ('''', Some UnexpectedPartTypeError), e3))))
                    else (Return ('''', Some (UnknownToolError n)), e1)
                | Return (part # ps) \<Rightarrow> (Return ('''', None), e1)))"

section \<open>The message filter\<close>

subsection \<open>The mention pattern\<close>

text \<open>
  \<^verbatim>\<open>mentionPtn = regexp.MustCompile(`<@[0-9]+>`)\<close> (lines 49, 257, 443). The
  pattern is ASCII, so it is matched on the bytes of the text.

  \<open>mentionPtn_match s\<close> is the match of the pattern that starts at the first byte of
  \<open>s\<close>, given as the text left after it: \<^verbatim>\<open><\<close>, \<^verbatim>\<open>@\<close>, the longest run of digits (at
  least one), then \<^verbatim>\<open>>\<close>. No shorter run of digits can match, since the byte after
  it is a digit and not \<^verbatim>\<open>>\<close>.
\<close>

definition isDigit :: "char \<Rightarrow> bool" where
  "isDigit c \<longleftrightarrow> c \<in> set ''0123456789''"

fun mentionPtn_match :: "string \<Rightarrow> string option" where
  "mentionPtn_match (a # b # cs) =
     (if a = CHR ''<'' \<and> b = CHR ''@'' then
        (case dropWhile isDigit cs of
           [] \<Rightarrow> None
         | d # rest \<Rightarrow>
             if takeWhile isDigit cs \<noteq> [] \<and> d = CHR ''>'' then Some rest else None)
      else None)"
| "mentionPtn_match s = None"

lemma mentionPtn_match_shorter:
  "mentionPtn_match s = Some rest \<Longrightarrow> length rest < length s"
proof (induction s rule: mentionPtn_match.induct)
  case (1 a b cs)
  from "1.prems" obtain d where d: "dropWhile isDigit cs = d # rest"
    by (auto split: if_splits list.splits)
  have "length (dropWhile isDigit cs) \<le> length cs"
    by (rule length_dropWhile_le)
  with d show ?case by simp
qed simp_all

text \<open>
  \<^verbatim>\<open>mentionPtn.ReplaceAllString(content, "")\<close> (lines 182, 373, 543): Go's
  \<^verbatim>\<open>regexp\<close> scans the text from the left; where the pattern matches, the match is
  replaced (here by the empty string) and the scan goes on after the match, otherwise
  the byte is copied and the scan goes on at the next byte.
\<close>

function ReplaceAllString_mentionPtn :: "string \<Rightarrow> string" where
  "ReplaceAllString_mentionPtn [] = []"
| "ReplaceAllString_mentionPtn (c # cs) =
     (case mentionPtn_match (c # cs) of
        Some rest \<Rightarrow> ReplaceAllString_mentionPtn rest
      | None \<Rightarrow> c # ReplaceAllString_mentionPtn cs)"
  by pat_completeness auto
termination
  by (relation "measure length") (auto dest: mentionPtn_match_shorter)

subsection \<open>The handler\<close>

text \<open>
  The fields of \<^verbatim>\<open>discordgo.User\<close>, \<^verbatim>\<open>discordgo.MessageCreate\<close> and
  \<^verbatim>\<open>discordgo.Session\<close> that the handler reads (\<^verbatim>\<open>s.State.User.ID\<close> is the bot's own
  identity). The SDK's pointers (\<^verbatim>\<open>s.State.User\<close>, the users in \<^verbatim>\<open>m.Mentions\<close>) are
  taken to be non-nil.
\<close>

record User =
  ID :: string

record MessageCreate =
  Content :: string
  Mentions :: "User list"
  ChannelID :: string

record Session =
  State_User_ID :: string

text \<open>
  \<^verbatim>\<open>MessageCreateHandler\<close> (lines 173-193, 364-379, 534-549):
  \<^verbatim>\<open>
  if !slices.ContainsFunc(m.Mentions, func(u *discordgo.User) bool {
      return s.State.User.ID == u.ID
  }) {
      return
  }
  content := m.Content
  replaced := mentionPtn.ReplaceAllString(content, "")
  resp, err := g.Chat(replaced)
  if err != nil { logger.Error(...) }
  s.ChannelMessageSend(m.ChannelID, resp)
  \<close>
  The handler is the same in the three revisions and calls the \<^verbatim>\<open>Chat\<close> of its own
  revision, the parameter \<open>chat\<close>. The reply is sent whether or not \<^verbatim>\<open>Chat\<close> returned
  an error; a panic of \<^verbatim>\<open>Chat\<close> ends the handler.
\<close>

definition MessageCreateHandler ::
  "(world \<Rightarrow> string \<Rightarrow> effects \<Rightarrow> (string \<times> error option) outcome \<times> effects)
   \<Rightarrow> world \<Rightarrow> Session \<Rightarrow> MessageCreate \<Rightarrow> effects \<Rightarrow> unit outcome \<times> effects" where
  "MessageCreateHandler chat w s m e =
     (if \<not> list_ex (\<lambda>u. State_User_ID s = ID u) (Mentions m) then (Return (), e)
      else
        (let content = Content m;
             replaced = ReplaceAllString_mentionPtn content
         in case chat w replaced e of
              (Panic, e') \<Rightarrow> (Panic, e')
            | (Return (resp, err), e') \<Rightarrow>
                (Return (), e'\<lparr>replies := replies e' @ [(ChannelID m, resp)]\<rparr>)))"

section \<open>Notions the properties are stated with\<close>

text \<open>A function call that names the one registered tool.\<close>

fun isFetchCall :: "Part \<Rightarrow> bool" where
  "isFetchCall (FunctionCall n a) = (n = ''fetchWebsiteContent'')"
| "isFetchCall p = False"

text \<open>
  The spec's words for the cleaned prompt, independent of the scanning loop: a
  \<^emph>\<open>mention markup\<close> is a text made of \<^verbatim>\<open><@\<close>, one or more digits and \<^verbatim>\<open>>\<close>; a
  position of a text is \<^emph>\<open>in\<close> a mention markup when some substring of the text that
  covers it (from \<open>i\<close> up to \<open>j\<close>) is one; the text \<^emph>\<open>without mentions\<close> keeps, in
  their order, exactly the bytes at the positions that are in no mention markup.
\<close>

definition is_mention_markup :: "string \<Rightarrow> bool" where
  "is_mention_markup t \<longleftrightarrow>
     4 \<le> length t \<and> take 2 t = ''<@'' \<and> last t = CHR ''>''
     \<and> list_all isDigit (butlast (drop 2 t))"

definition in_mention_markup :: "string \<Rightarrow> nat \<Rightarrow> bool" where
  "in_mention_markup s k \<longleftrightarrow>
     list_ex (\<lambda>i. list_ex (\<lambda>j. is_mention_markup (take (j - i) (drop i s)))
                    [Suc k..<Suc (length s)])
       [0..<Suc k]"

definition without_mentions :: "string \<Rightarrow> string" where
  "without_mentions s =
     map (\<lambda>k. s ! k) (filter (\<lambda>k. \<not> in_mention_markup s k) [0..<length s])"

section \<open>Concrete inputs\<close>

definition no_effects :: effects where
  "no_effects = \<lparr>model_calls = [], fetches = [], replies = []\<rparr>"

text \<open>A world with no model behind it, whose every page reads \<^verbatim>\<open>PAGE\<close>.\<close>

definition page_world :: world where
  "page_world = \<lparr>SendMessage = (\<lambda>h. Inl ''offline''), http_get = (\<lambda>u. Inr ''PAGE'')\<rparr>"

text \<open>
  A mocked model: the first message of a session is answered with the response
  \<open>first\<close>, every later one with \<open>second\<close>; every page reads \<^verbatim>\<open>PAGE\<close>.
\<close>

definition scripted_world ::
  "GenerateContentResponse \<Rightarrow> GenerateContentResponse \<Rightarrow> world" where
  "scripted_world first second =
     \<lparr>SendMessage = (\<lambda>h. Inr (if length h = 1 then first else second)),
      http_get = (\<lambda>u. Inr ''PAGE'')\<rparr>"

text \<open>
  Responses: one candidate with the given parts, with and without usage metadata, and
  a response with no candidates.
\<close>

definition token_counts :: UsageMetadata where
  "token_counts = \<lparr>PromptTokenCount = 3, CandidatesTokenCount = 5, TotalTokenCount = 8\<rparr>"

definition candidate :: "Part list \<Rightarrow> Candidate option" where
  "candidate ps = Some \<lparr>Candidate_Content = Some \<lparr>Parts = ps\<rparr>\<rparr>"

definition response :: "Part list \<Rightarrow> GenerateContentResponse" where
  "response ps = \<lparr>Candidates = [candidate ps], UsageMetadata = Some token_counts\<rparr>"

definition response_no_usage :: "Part list \<Rightarrow> GenerateContentResponse" where
  "response_no_usage ps = \<lparr>Candidates = [candidate ps], UsageMetadata = None\<rparr>"

definition no_candidates :: GenerateContentResponse where
  "no_candidates = \<lparr>Candidates = [], UsageMetadata = Some token_counts\<rparr>"

definition url_args :: "string \<Rightarrow> args" where
  "url_args u = [''url'' \<mapsto> AString u]"

definition number_args :: args where
  "number_args = [''url'' \<mapsto> ANumber 7]"

definition no_args :: args where
  "no_args = Map.empty"

definition content_args :: "string \<Rightarrow> args" where
  "content_args d = [''content'' \<mapsto> AString d]"

definition first_prompt :: "string \<Rightarrow> Part list" where
  "first_prompt p = [Text (p @ LimitConditionPrompt)]"

definition gemini_bot :: Session where
  "gemini_bot = \<lparr>State_User_ID = ''1001''\<rparr>"

definition message_to_bot :: MessageCreate where
  "message_to_bot =
     \<lparr>Content = ''<@1001> hi'', Mentions = [\<lparr>ID = ''1001''\<rparr>], ChannelID = ''general''\<rparr>"

definition message_to_other :: MessageCreate where
  "message_to_other =
     \<lparr>Content = ''<@2002> hi'', Mentions = [\<lparr>ID = ''2002''\<rparr>], ChannelID = ''general''\<rparr>"

section \<open>Lemmas\<close>

subsection \<open>The tool loop\<close>

text \<open>
  Parts that are not \<^verbatim>\<open>fetchWebsiteContent\<close> calls leave the loop's state as it is, so
  a response without such a call yields no function response, and a response with
  exactly one, whose fetch succeeds, yields one function response after one fetch.
\<close>

lemma loop_skips:
  "\<not> list_ex isFetchCall xs \<Longrightarrow>
   handleFunctionCalls_loop w (xs @ ys) frs e = handleFunctionCalls_loop w ys frs e"
proof (induction xs)
  case Nil
  show ?case by simp
next
  case (Cons p xs)
  then show ?case by (cases p) simp_all
qed

lemma filter_no_fetch:
  "\<not> list_ex isFetchCall xs \<Longrightarrow> \<not> list_ex isFetchCall (filter isFunctionCall xs)"
  by (induction xs) auto


lemma handleFunctionCalls_one:
  assumes "\<not> list_ex isFetchCall (pre @ post)"
    and "a ''url'' = Some (AString url)"
    and "http_get w url = Inr data"
  shows "handleFunctionCalls w (pre @ FunctionCall ''fetchWebsiteContent'' a # post) e =
         (Inr [FunctionResponse ''fetchWebisiteContent'' [''content'' \<mapsto> AString data]],
          e\<lparr>fetches := fetches e @ [url]\<rparr>)"
proof -
  from assms(1) have pre: "\<not> list_ex isFetchCall (filter isFunctionCall pre)"
    and post: "\<not> list_ex isFetchCall (filter isFunctionCall post)"
    by (auto intro: filter_no_fetch simp: list_ex_iff)
  have tool: "fetchWebsiteContentFunc w a e = (Inr data, e\<lparr>fetches := fetches e @ [url]\<rparr>)"
    using assms(2,3) by (simp add: fetchWebsiteContentFunc_def)
  show ?thesis
    using loop_skips [OF pre, of w] loop_skips [OF post, of w "[]"] tool
    by (simp add: handleFunctionCalls_def)
qed

subsection \<open>The first turn, variant by variant\<close>

text \<open>
  What each variant returns for an empty first response, for a first candidate without
  \<^verbatim>\<open>Content\<close> and for a call to a tool that is not registered.
\<close>

lemma first_parts:
  "Candidates resp = Some c # cs \<Longrightarrow> Candidate_Content c = Some ct \<Longrightarrow>
   Candidates0_Content_Parts resp = Return (Parts ct)"
  by (simp add: Candidates0_Content_Parts_def)

lemma Chat_first_empty_response:
  assumes "SendMessage w [[Text (prompt @ LimitConditionPrompt)]] = Inr resp"
    and "Candidates resp = []
         \<or> (\<exists>c cs ct. Candidates resp = Some c # cs \<and> Candidate_Content c = Some ct
               \<and> Parts ct = [])"
  shows "Chat_first w prompt e =
           (Return ('''', Some EmptyResponseError),
            e\<lparr>model_calls := model_calls e @ [[Text (prompt @ LimitConditionPrompt)]]\<rparr>)"
  using assms by (auto simp: Chat_first_def first_parts)

lemma Chat_accum_empty_parts:
  assumes "SendMessage w [[Text (prompt @ LimitConditionPrompt)]] = Inr resp"
    and "Candidates resp = Some c # cs" and "Candidate_Content c = Some ct"
    and "Parts ct = []"
  shows "Chat_accum w prompt e =
           (Return ('''', Some EmptyResponseError),
            e\<lparr>model_calls := model_calls e @ [[Text (prompt @ LimitConditionPrompt)]]\<rparr>)"
  using assms by (simp add: Chat_accum_def first_parts)

lemma Chat_traced_empty_parts:
  assumes "SendMessage w [[Text (prompt @ LimitConditionPrompt)]] = Inr resp"
    and "UsageMetadata resp = Some u"
    and "Candidates resp = Some c # cs" and "Candidate_Content c = Some ct"
    and "Parts ct = []"
  shows "Chat_traced w prompt e =
           (Return ('''', Some EmptyResponseError),
            e\<lparr>model_calls := model_calls e @ [[Text (prompt @ LimitConditionPrompt)]]\<rparr>)"
  using assms by (simp add: Chat_traced_def first_parts)

lemma accumulating_no_candidates:
  assumes "SendMessage w [[Text (prompt @ LimitConditionPrompt)]] = Inr resp"
    and "Candidates resp = []"
  shows "Chat_accum w prompt e =
           (Panic, e\<lparr>model_calls := model_calls e @ [[Text (prompt @ LimitConditionPrompt)]]\<rparr>)"
    and "Chat_traced w prompt e =
           (Panic, e\<lparr>model_calls := model_calls e @ [[Text (prompt @ LimitConditionPrompt)]]\<rparr>)"
  using assms
  by (auto simp: Chat_accum_def Chat_traced_def Candidates0_Content_Parts_def Let_def
        split: option.splits)

lemma nil_Content_panics:
  assumes "SendMessage w [[Text (prompt @ LimitConditionPrompt)]] = Inr resp"
    and "Candidates resp = Some c # cs" and "Candidate_Content c = None"
  shows "Chat_first w prompt e =
           (Panic, e\<lparr>model_calls := model_calls e @ [[Text (prompt @ LimitConditionPrompt)]]\<rparr>)"
    and "Chat_accum w prompt e =
           (Panic, e\<lparr>model_calls := model_calls e @ [[Text (prompt @ LimitConditionPrompt)]]\<rparr>)"
    and "Chat_traced w prompt e =
           (Panic, e\<lparr>model_calls := model_calls e @ [[Text (prompt @ LimitConditionPrompt)]]\<rparr>)"
  using assms
  by (auto simp: Chat_first_def Chat_accum_def Chat_traced_def Candidates0_Content_Parts_def
        Let_def split: option.splits)

lemma nil_UsageMetadata_panics:
  assumes "SendMessage w [[Text (prompt @ LimitConditionPrompt)]] = Inr resp"
    and "UsageMetadata resp = None"
  shows "Chat_traced w prompt e =
           (Panic, e\<lparr>model_calls := model_calls e @ [[Text (prompt @ LimitConditionPrompt)]]\<rparr>)"
  using assms by (simp add: Chat_traced_def)

lemma Chat_first_unknown_tool:
  assumes "SendMessage w [[Text (prompt @ LimitConditionPrompt)]] = Inr resp"
    and "Candidates resp = Some c # cs" and "Candidate_Content c = Some ct"
    and "Parts ct = FunctionCall n a # ps"
    and "n \<noteq> ''fetchWebsiteContent''"
  shows "Chat_first w prompt e =
           (Return ('''', Some (UnknownToolError n)),
            e\<lparr>model_calls := model_calls e @ [[Text (prompt @ LimitConditionPrompt)]]\<rparr>)"
  using assms by (simp add: Chat_first_def first_parts)

lemma accumulating_unknown_tool:
  assumes "SendMessage w [[Text (prompt @ LimitConditionPrompt)]] = Inr resp"
    and "Candidates resp = Some c # cs" and "Candidate_Content c = Some ct"
    and "Parts ct = [FunctionCall n a]"
    and "n \<noteq> ''fetchWebsiteContent''"
  shows "Chat_accum w prompt e =
           (Return ('''', None),
            e\<lparr>model_calls := model_calls e @ [[Text (prompt @ LimitConditionPrompt)]]\<rparr>)"
    and "UsageMetadata resp = Some u \<Longrightarrow> Chat_traced w prompt e =
           (Return ('''', None),
            e\<lparr>model_calls := model_calls e @ [[Text (prompt @ LimitConditionPrompt)]]\<rparr>)"
  using assms
  by (simp_all add: Chat_accum_def Chat_traced_def handleFunctionCalls_def first_parts)

subsection \<open>Removing mentions\<close>

text \<open>
  The scanning loop computes \<open>without_mentions\<close>. A mention markup is \<^verbatim>\<open><@\<close>, digits,
  \<^verbatim>\<open>>\<close> (\<open>is_mention_markup_iff\<close>), the pattern matches at the head of a text exactly
  when the text starts with one (\<open>mentionPtn_match_iff\<close>), and a position is in a
  mention markup exactly when the text splits around one that covers it
  (\<open>in_mention_markup_iff\<close>). Where the pattern does not match, the head byte is in no
  mention markup and the positions of the rest are covered as they are in the rest
  alone (\<open>cover_no_match\<close>); where it matches, the match is covered and, since the
  only \<^verbatim>\<open><\<close> of a mention markup is its first byte, no other markup starts inside it
  (\<open>cover_match\<close>). The equation follows by the recursion of the loop.
\<close>

lemma is_mention_markup_iff:
  "is_mention_markup t \<longleftrightarrow>
     (\<exists>ds. ds \<noteq> [] \<and> list_all isDigit ds \<and> t = ''<@'' @ ds @ ''>'')"
proof
  assume m: "is_mention_markup t"
  then have len: "4 \<le> length t" and hd2: "take 2 t = ''<@''" and l: "last t = CHR ''>''"
    and ds: "list_all isDigit (butlast (drop 2 t))"
    by (simp_all add: is_mention_markup_def)
  from len have ne: "drop 2 t \<noteq> []" by auto
  have e1: "butlast (drop 2 t) @ [last (drop 2 t)] = drop 2 t"
    using ne by (rule append_butlast_last_id)
  have e2: "last (drop 2 t) = CHR ''>''" using l len by (simp add: last_drop)
  have "take 2 t @ (butlast (drop 2 t) @ [last (drop 2 t)]) = t"
    by (simp only: e1 append_take_drop_id)
  then have "t = ''<@'' @ butlast (drop 2 t) @ ''>''" using hd2 e2 by simp
  moreover have "butlast (drop 2 t) \<noteq> []"
  proof
    assume "butlast (drop 2 t) = []"
    then have "length (butlast (drop 2 t)) = 0" by simp
    with len show False by simp
  qed
  ultimately show "\<exists>ds. ds \<noteq> [] \<and> list_all isDigit ds \<and> t = ''<@'' @ ds @ ''>''"
    using ds by blast
next
  assume "\<exists>ds. ds \<noteq> [] \<and> list_all isDigit ds \<and> t = ''<@'' @ ds @ ''>''"
  then obtain ds where "ds \<noteq> []" "list_all isDigit ds" "t = ''<@'' @ ds @ ''>''" by blast
  then show "is_mention_markup t"
    by (cases ds) (simp_all add: is_mention_markup_def butlast_append)
qed

lemma mentionPtn_match_iff:
  "mentionPtn_match s = Some r \<longleftrightarrow>
     (\<exists>ds. ds \<noteq> [] \<and> list_all isDigit ds \<and> s = ''<@'' @ ds @ ''>'' @ r)"
proof
  assume m: "mentionPtn_match s = Some r"
  then obtain cs where s: "s = CHR ''<'' # CHR ''@'' # cs"
    by (cases s rule: mentionPtn_match.cases) (auto split: if_splits)
  from m s have d: "dropWhile isDigit cs = CHR ''>'' # r" and t: "takeWhile isDigit cs \<noteq> []"
    by (auto split: if_splits list.splits)
  have "cs = takeWhile isDigit cs @ dropWhile isDigit cs" by simp
  with d have "cs = takeWhile isDigit cs @ ''>'' @ r" by simp
  moreover have "list_all isDigit (takeWhile isDigit cs)"
    by (simp add: list_all_iff) (meson set_takeWhileD)
  ultimately show "\<exists>ds. ds \<noteq> [] \<and> list_all isDigit ds \<and> s = ''<@'' @ ds @ ''>'' @ r"
    using s t by (intro exI [of _ "takeWhile isDigit cs"]) simp
next
  assume "\<exists>ds. ds \<noteq> [] \<and> list_all isDigit ds \<and> s = ''<@'' @ ds @ ''>'' @ r"
  then obtain ds where ne: "ds \<noteq> []" and dg: "list_all isDigit ds"
    and s: "s = ''<@'' @ ds @ ''>'' @ r" by blast
  have nd: "\<not> isDigit CHR ''>''" by (simp add: isDigit_def)
  have "takeWhile isDigit (ds @ CHR ''>'' # r) = ds"
    using dg nd by (simp add: takeWhile_append2 list_all_iff)
  moreover have "dropWhile isDigit (ds @ CHR ''>'' # r) = CHR ''>'' # r"
    using dg nd by (simp add: dropWhile_append2 list_all_iff)
  ultimately show "mentionPtn_match s = Some r"
    using s ne by simp
qed


lemma in_mention_markup_iff:
  "in_mention_markup s k \<longleftrightarrow>
     (\<exists>pre ds post. ds \<noteq> [] \<and> list_all isDigit ds
        \<and> s = pre @ ''<@'' @ ds @ ''>'' @ post
        \<and> length pre \<le> k \<and> k < length pre + length ds + 3)"
  (is "?L \<longleftrightarrow> ?R")
proof
  assume ?L
  then have "\<exists>i\<in>set [0..<Suc k]. \<exists>j\<in>set [Suc k..<Suc (length s)].
               is_mention_markup (take (j - i) (drop i s))"
    unfolding in_mention_markup_def list_ex_iff .
  then obtain i j where ij: "i \<in> set [0..<Suc k]" "j \<in> set [Suc k..<Suc (length s)]"
    and m: "is_mention_markup (take (j - i) (drop i s))"
    by blast
  from ij have i: "i \<le> k" and j: "k < j" "j \<le> length s" by auto
  from m obtain ds where ds: "ds \<noteq> []" "list_all isDigit ds"
    and t: "take (j - i) (drop i s) = ''<@'' @ ds @ ''>''"
    by (auto simp: is_mention_markup_iff)
  have "length (take (j - i) (drop i s)) = j - i" using i j by simp
  with t have len: "j - i = length ds + 3" by simp
  obtain post where post: "drop i s = take (j - i) (drop i s) @ post"
    by (metis append_take_drop_id)
  have "s = take i s @ drop i s" by simp
  with post t have "s = take i s @ ''<@'' @ ds @ ''>'' @ post"
    by simp
  moreover have "length (take i s) = i" using i j by simp
  ultimately show ?R
    using ds i j len
    by (intro exI [of _ "take i s"] exI [of _ ds] exI [of _ post]) simp
next
  assume ?R
  then obtain pre ds post where ds: "ds \<noteq> []" "list_all isDigit ds"
    and s: "s = pre @ ''<@'' @ ds @ ''>'' @ post"
    and k: "length pre \<le> k" "k < length pre + length ds + 3"
    by blast
  let ?i = "length pre" and ?j = "length pre + length ds + 3"
  define M where "M = ''<@'' @ ds @ ''>''"
  have lm: "length M = length ds + 3" by (simp add: M_def)
  have sM: "s = pre @ M @ post" using s by (simp add: M_def)
  have "take (?j - ?i) (drop ?i s) = M" by (simp add: sM flip: lm)
  then have "take (?j - ?i) (drop ?i s) = ''<@'' @ ds @ ''>''"
    by (simp only: M_def)
  then have "is_mention_markup (take (?j - ?i) (drop ?i s))"
    using ds by (auto simp: is_mention_markup_iff)
  moreover have "?i \<in> set [0..<Suc k]"
  proof -
    from k have "0 \<le> ?i" "?i < Suc k" by linarith+
    then show ?thesis by (simp only: set_upt atLeastLessThan_iff)
  qed
  moreover have "?j \<in> set [Suc k..<Suc (length s)]"
  proof -
    have "length s = length pre + length ds + 3 + length post" by (simp add: sM lm)
    with k have "Suc k \<le> ?j" "?j < Suc (length s)" by linarith+
    then show ?thesis by (simp only: set_upt atLeastLessThan_iff)
  qed
  ultimately show ?L
    unfolding in_mention_markup_def list_ex_iff by blast
qed

lemma mention_inner_bytes:
  assumes "list_all isDigit ds" and "0 < n" and "n < length ds + 3"
  shows "(''<@'' @ ds @ ''>'' @ r) ! n \<noteq> CHR ''<''"
proof -
  from assms(2) obtain n1 where n1: "n = Suc n1" by (cases n) auto
  show ?thesis
  proof (cases n1)
    case 0
    with n1 show ?thesis by simp
  next
    case (Suc n2)
    show ?thesis
    proof (cases "n2 < length ds")
      case True
      then have "ds ! n2 \<in> set ds" by simp
      with assms(1) have "isDigit (ds ! n2)" by (simp add: list_all_iff)
      then have "ds ! n2 \<noteq> CHR ''<''" by (auto simp: isDigit_def)
      with True n1 Suc show ?thesis by (simp add: nth_append)
    next
      case False
      with assms(3) n1 Suc have "n2 = length ds" by simp
      with n1 Suc show ?thesis by (simp add: nth_append)
    qed
  qed
qed

lemma cover_no_match:
  assumes "mentionPtn_match (c # cs) = None"
  shows "\<not> in_mention_markup (c # cs) 0"
    and "in_mention_markup (c # cs) (Suc k) \<longleftrightarrow> in_mention_markup cs k"
proof -
  have nomatch: "c # cs \<noteq> ''<@'' @ ds @ ''>'' @ post"
    if "ds \<noteq> []" "list_all isDigit ds" for ds post
  proof
    assume "c # cs = ''<@'' @ ds @ ''>'' @ post"
    with that have "mentionPtn_match (c # cs) = Some post"
      unfolding mentionPtn_match_iff by auto
    with assms show False by simp
  qed
  show "\<not> in_mention_markup (c # cs) 0"
    unfolding in_mention_markup_iff using nomatch by auto
  show "in_mention_markup (c # cs) (Suc k) \<longleftrightarrow> in_mention_markup cs k"
  proof
    assume "in_mention_markup (c # cs) (Suc k)"
    then obtain pre ds post where ds: "ds \<noteq> []" "list_all isDigit ds"
      and s: "c # cs = pre @ ''<@'' @ ds @ ''>'' @ post"
      and k: "length pre \<le> Suc k" "Suc k < length pre + length ds + 3"
      unfolding in_mention_markup_iff by blast
    from s nomatch [OF ds] obtain pre' where pre: "pre = c # pre'"
      by (cases pre) auto
    with s have "cs = pre' @ ''<@'' @ ds @ ''>'' @ post" by simp
    moreover from k pre have "length pre' \<le> k" "k < length pre' + length ds + 3" by simp_all
    ultimately show "in_mention_markup cs k"
      unfolding in_mention_markup_iff using ds by blast
  next
    assume "in_mention_markup cs k"
    then obtain pre ds post where ds: "ds \<noteq> []" "list_all isDigit ds"
      and s: "cs = pre @ ''<@'' @ ds @ ''>'' @ post"
      and k: "length pre \<le> k" "k < length pre + length ds + 3"
      unfolding in_mention_markup_iff by blast
    from s have "c # cs = (c # pre) @ ''<@'' @ ds @ ''>'' @ post" by simp
    moreover from k have "length (c # pre) \<le> Suc k" "Suc k < length (c # pre) + length ds + 3"
      by simp_all
    ultimately show "in_mention_markup (c # cs) (Suc k)"
      unfolding in_mention_markup_iff using ds by blast
  qed
qed

lemma cover_match:
  assumes "mentionPtn_match s = Some r"
  shows "\<exists>M. s = M @ r
           \<and> (\<forall>k<length M. in_mention_markup s k)
           \<and> (\<forall>k. in_mention_markup s (k + length M) \<longleftrightarrow> in_mention_markup r k)"
proof -
  from assms obtain ds where ds: "ds \<noteq> []" "list_all isDigit ds"
    and s: "s = ''<@'' @ ds @ ''>'' @ r"
    unfolding mentionPtn_match_iff by blast
  define M where "M = ''<@'' @ ds @ ''>''"
  have lm: "length M = length ds + 3" by (simp add: M_def)
  have sM: "s = M @ r" using s by (simp add: M_def)
  have inside: "in_mention_markup s k" if "k < length M" for k
  proof -
    have "s = [] @ ''<@'' @ ds @ ''>'' @ r" using s by simp
    moreover have "length ([] :: string) \<le> k" by simp
    moreover have "k < length ([] :: string) + length ds + 3" using that lm by simp
    ultimately show ?thesis
      unfolding in_mention_markup_iff using ds by blast
  qed
  have shift: "in_mention_markup s (k + length M) \<longleftrightarrow> in_mention_markup r k" for k
  proof
    assume "in_mention_markup r k"
    then obtain pre ds' post where ds': "ds' \<noteq> []" "list_all isDigit ds'"
      and r: "r = pre @ ''<@'' @ ds' @ ''>'' @ post"
      and k: "length pre \<le> k" "k < length pre + length ds' + 3"
      unfolding in_mention_markup_iff by blast
    from r sM have "s = (M @ pre) @ ''<@'' @ ds' @ ''>'' @ post" by simp
    moreover from k have "length (M @ pre) \<le> k + length M"
      "k + length M < length (M @ pre) + length ds' + 3" by simp_all
    ultimately show "in_mention_markup s (k + length M)"
      unfolding in_mention_markup_iff using ds' by blast
  next
    assume "in_mention_markup s (k + length M)"
    then obtain pre ds' post where ds': "ds' \<noteq> []" "list_all isDigit ds'"
      and s': "s = pre @ ''<@'' @ ds' @ ''>'' @ post"
      and k: "length pre \<le> k + length M" "k + length M < length pre + length ds' + 3"
      unfolding in_mention_markup_iff by blast
    have long: "length M \<le> length pre"
    proof (rule ccontr)
      assume "\<not> length M \<le> length pre"
      then have short: "length pre < length ds + 3" using lm by simp
      have at: "s ! length pre = CHR ''<''" by (simp add: s' nth_append)
      show False
      proof (cases "length pre = 0")
        case True
        then have "s = ''<@'' @ ds' @ ''>'' @ post" using s' by simp
        with ds' have "mentionPtn_match s = Some post"
          unfolding mentionPtn_match_iff by blast
        with assms have "post = r" by simp
        with s s' True have "ds' = ds" by simp
        with k True lm show False by simp
      next
        case False
        then have "0 < length pre" by simp
        from mention_inner_bytes [OF ds(2) this short, of r] at s
        show False by simp
      qed
    qed
    from s' sM have "M @ r = pre @ ''<@'' @ ds' @ ''>'' @ post" by simp
    with long obtain pre' where pre: "pre = M @ pre'"
      by (metis append_eq_append_conv_if append_take_drop_id)
    with s' sM have "r = pre' @ ''<@'' @ ds' @ ''>'' @ post" by simp
    moreover from k pre have "length pre' \<le> k" "k < length pre' + length ds' + 3" by simp_all
    ultimately show "in_mention_markup r k"
      unfolding in_mention_markup_iff using ds' by blast
  qed
  from sM inside shift show ?thesis by blast
qed

lemma without_mentions_nths:
  "without_mentions s = nths s {k. \<not> in_mention_markup s k}"
proof -
  have "map (\<lambda>k. s ! k) (filter P [0..<length s]) = nths s {k. P k}" for P
  proof (induction s arbitrary: P rule: rev_induct)
    case Nil
    show ?case by simp
  next
    case (snoc x xs)
    have "map (\<lambda>k. (xs @ [x]) ! k) (filter P [0..<length xs])
          = map (\<lambda>k. xs ! k) (filter P [0..<length xs])"
      by (rule map_cong) (auto simp: nth_append)
    with snoc [of P] show ?case
      by (simp add: nths_append)
  qed
  then show ?thesis by (simp add: without_mentions_def)
qed

lemma nths_none: "(\<And>k. k < length xs \<Longrightarrow> k \<notin> A) \<Longrightarrow> nths xs A = []"
proof -
  assume "\<And>k. k < length xs \<Longrightarrow> k \<notin> A"
  then have "set (nths xs A) = {}" by (auto simp: set_nths)
  then show ?thesis by simp
qed

lemma without_mentions_no_match:
  assumes "mentionPtn_match (c # cs) = None"
  shows "without_mentions (c # cs) = c # without_mentions cs"
  using cover_no_match [OF assms]
  by (simp add: without_mentions_nths nths_Cons)

lemma without_mentions_match:
  assumes "mentionPtn_match s = Some r"
  shows "without_mentions s = without_mentions r"
proof -
  from cover_match [OF assms] obtain M where sM: "s = M @ r"
    and inside: "\<And>k. k < length M \<Longrightarrow> in_mention_markup s k"
    and shift: "\<And>k. in_mention_markup s (k + length M) \<longleftrightarrow> in_mention_markup r k"
    by blast
  have "nths M {k. \<not> in_mention_markup s k} = []"
    by (rule nths_none) (simp add: inside)
  moreover have "{j. j + length M \<in> {k. \<not> in_mention_markup s k}} = {k. \<not> in_mention_markup r k}"
    using shift by simp
  ultimately have "nths (M @ r) {k. \<not> in_mention_markup s k} = nths r {k. \<not> in_mention_markup r k}"
    by (simp only: nths_append append_Nil)
  then show ?thesis
    unfolding without_mentions_nths using sM by simp
qed

lemma ReplaceAllString_removes_mentions:
  "ReplaceAllString_mentionPtn s = without_mentions s"
proof (induction s rule: ReplaceAllString_mentionPtn.induct)
  case 1
  show ?case by (simp add: without_mentions_def)
next
  case (2 c cs)
  show ?case
  proof (cases "mentionPtn_match (c # cs)")
    case None
    with "2.IH"(1) show ?thesis
      by (simp add: without_mentions_no_match)
  next
    case (Some r)
    with "2.IH"(2) show ?thesis
      by (simp add: without_mentions_match)
  qed
qed

section \<open>The claims\<close>

subsection \<open>C1: an empty first response\<close>

text \<open>
  C1. For every first-turn model response that contains no candidate outputs, or whose
  first candidate has no content parts, \<^verbatim>\<open>Chat\<close> returns an \<open>EmptyResponseError\<close>
  (and no reply text). The first-part variant does so when there is no candidate and
  when the \<^verbatim>\<open>Content\<close> of the first candidate has no parts
  (\<open>Chat_first_empty_response\<close>), and the accumulating variants do so in the second
  case (\<open>Chat_accum_empty_parts\<close>, \<open>Chat_traced_empty_parts\<close>). On a response with no
  candidates the accumulating variants do not: they read \<^verbatim>\<open>resp.Candidates[0]\<close> on the
  line before the test \<^verbatim>\<open>len(resp.Candidates) == 0\<close> and panic
  (\<open>accumulating_no_candidates\<close>). A first candidate whose \<^verbatim>\<open>Content\<close> is nil makes
  all three variants panic (\<open>nil_Content_panics\<close>). The evaluation below is the mocked
  model whose first response has zero candidates.
\<close>

theorem no_candidates_panics_accum:
  "Chat_accum (scripted_world no_candidates (response [Text ''done''])) ''hi'' no_effects =
     (Panic, \<lparr>model_calls = [first_prompt ''hi''], fetches = [], replies = []\<rparr>)
   \<and> Chat_traced (scripted_world no_candidates (response [Text ''done''])) ''hi'' no_effects =
     (Panic, \<lparr>model_calls = [first_prompt ''hi''], fetches = [], replies = []\<rparr>)"
  by (simp add: Chat_accum_def Chat_traced_def Candidates0_Content_Parts_def scripted_world_def
        no_candidates_def no_effects_def first_prompt_def)

subsection \<open>C2: an unregistered tool\<close>

text \<open>
  C2. For every first-turn model response whose consulted part is a function-call
  request with a name other than \<^verbatim>\<open>fetchWebsiteContent\<close>, \<^verbatim>\<open>Chat\<close> fails with
  \<open>UnknownToolError\<close> and performs zero HTTP fetches. The first-part variant does so
  (\<open>Chat_first_unknown_tool\<close>). The accumulating variants perform no fetch but
  return the empty reply with a nil error (\<open>accumulating_unknown_tool\<close>): their
  switch has no \<^verbatim>\<open>default\<close> case, and \<^verbatim>\<open>return "", err\<close> returns the nil error of
  \<^verbatim>\<open>handleFunctionCalls\<close>. The evaluation below is the mocked model that asks for the
  unregistered tool \<^verbatim>\<open>doStuff\<close>.
\<close>

theorem unknown_tool_empty_success_accum:
  "Chat_accum (scripted_world (response [FunctionCall ''doStuff'' no_args])
                 (response [Text ''done''])) ''hi'' no_effects =
     (Return ('''', None), \<lparr>model_calls = [first_prompt ''hi''], fetches = [], replies = []\<rparr>)
   \<and> Chat_traced (scripted_world (response [FunctionCall ''doStuff'' no_args])
                 (response [Text ''done''])) ''hi'' no_effects =
     (Return ('''', None), \<lparr>model_calls = [first_prompt ''hi''], fetches = [], replies = []\<rparr>)"
  by (simp add: Chat_accum_def Chat_traced_def Candidates0_Content_Parts_def
        handleFunctionCalls_def scripted_world_def response_def candidate_def
        no_effects_def first_prompt_def)

subsection \<open>C3: the name of the function response\<close>

text \<open>
  C3. For every successful tool invocation, the tool result sent back to the model is
  wrapped as a named function response whose name equals the requested tool's name,
  \<^verbatim>\<open>fetchWebsiteContent\<close>. The first-part variant sends that name
  (\<open>function_response_name_first\<close>). The accumulating variants send the name
  \<^verbatim>\<open>fetchWebisiteContent\<close>, which is not the tool's name. The evaluation below is the
  mocked model that asks for \<^verbatim>\<open>http://example.test\<close>, whose page reads \<^verbatim>\<open>PAGE\<close>: the
  second message sent to the model.
\<close>

theorem function_response_name_accum:
  "model_calls (snd (Chat_accum
       (scripted_world
          (response [FunctionCall ''fetchWebsiteContent'' (url_args ''http://example.test'')])
          (response [Text ''done''])) ''hi'' no_effects)) =
     [first_prompt ''hi'', [FunctionResponse ''fetchWebisiteContent'' (content_args ''PAGE'')]]
   \<and> model_calls (snd (Chat_traced
       (scripted_world
          (response [FunctionCall ''fetchWebsiteContent'' (url_args ''http://example.test'')])
          (response [Text ''done''])) ''hi'' no_effects)) =
     [first_prompt ''hi'', [FunctionResponse ''fetchWebisiteContent'' (content_args ''PAGE'')]]
   \<and> ''fetchWebisiteContent'' \<noteq> ''fetchWebsiteContent''"
  by (simp add: Chat_accum_def Chat_traced_def Candidates0_Content_Parts_def
        handleFunctionCalls_def fetchWebsiteContentFunc_def
        scripted_world_def response_def candidate_def no_effects_def first_prompt_def
        url_args_def content_args_def)

lemma function_response_name_first:
  "model_calls (snd (Chat_first
       (scripted_world
          (response [FunctionCall ''fetchWebsiteContent'' (url_args ''http://example.test'')])
          (response [Text ''done''])) ''hi'' no_effects)) =
     [first_prompt ''hi'', [FunctionResponse ''fetchWebsiteContent'' (content_args ''PAGE'')]]"
  by (simp add: Chat_first_def Candidates0_Content_Parts_def fetchWebsiteContentFunc_def
        scripted_world_def response_def candidate_def no_effects_def first_prompt_def
        url_args_def content_args_def)

subsection \<open>C4: the single-turn path\<close>




subsection \<open>C5: the tool-call path\<close>

text \<open>
  C5 as stated fails: a function-call part naming \<^verbatim>\<open>fetchWebsiteContent\<close> somewhere
  in the first response is not enough. When a text part comes first, the first-part
  variant returns that text after one model call and no fetch; when the response holds
  two such calls, the accumulating variant fetches twice; and the tracing revision
  panics when the first or the second response carries no usage metadata.
\<close>

theorem tool_call_anywhere_counterexample:
  "Chat_first
     (scripted_world
        (response [Text ''x'',
           FunctionCall ''fetchWebsiteContent'' (url_args ''http://example.test'')])
        (response [Text ''done''])) ''hi'' no_effects =
     (Return (''x'', None), \<lparr>model_calls = [first_prompt ''hi''], fetches = [], replies = []\<rparr>)
   \<and> fetches (snd (Chat_accum
        (scripted_world
           (response [FunctionCall ''fetchWebsiteContent'' (url_args ''http://a.test''),
              FunctionCall ''fetchWebsiteContent'' (url_args ''http://b.test'')])
           (response [Text ''done''])) ''hi'' no_effects)) =
     [''http://a.test'', ''http://b.test'']
   \<and> Chat_traced
     (scripted_world
        (response_no_usage
           [FunctionCall ''fetchWebsiteContent'' (url_args ''http://example.test'')])
        (response [Text ''done''])) ''hi'' no_effects =
     (Panic, \<lparr>model_calls = [first_prompt ''hi''], fetches = [], replies = []\<rparr>)
   \<and> Chat_traced
     (scripted_world
        (response [FunctionCall ''fetchWebsiteContent'' (url_args ''http://example.test'')])
        (response_no_usage [Text ''done''])) ''hi'' no_effects =
     (Panic,
      \<lparr>model_calls =
         [first_prompt ''hi'', [FunctionResponse ''fetchWebisiteContent'' (content_args ''PAGE'')]],
       fetches = [''http://example.test''], replies = []\<rparr>)"
  by (simp add: Chat_first_def Chat_accum_def Chat_traced_def Candidates0_Content_Parts_def
        handleFunctionCalls_def fetchWebsiteContentFunc_def scripted_world_def response_def
        response_no_usage_def candidate_def no_effects_def first_prompt_def url_args_def
        content_args_def)

text \<open>
  C5, amended. For every first-turn response in which the function-call part naming
  \<^verbatim>\<open>fetchWebsiteContent\<close> with a string \<^verbatim>\<open>url\<close> argument is the part the variant acts
  on (the first part in the first-part variant; the only function-call part of that
  name in the accumulating variants), when the fetch succeeds and the second model call
  returns a text first part (and, in the tracing revision, both responses carry usage
  metadata), \<^verbatim>\<open>Chat\<close> returns that second-turn text, issues exactly one HTTP GET, to
  that url, and issues exactly two model calls: the prompt and the function response.
\<close>

theorem tool_call_two_turns:
  assumes "SendMessage w [[Text (prompt @ LimitConditionPrompt)]] = Inr resp"
    and "Candidates resp = Some c # cs"
    and "Candidate_Content c = Some ct"
    and "a ''url'' = Some (AString url)"
    and "http_get w url = Inr data"
    and "Candidates resp' = Some c' # cs'"
    and "Candidate_Content c' = Some ct'"
    and "Parts ct' = Text ret # ps'"
  shows "(Parts ct = FunctionCall ''fetchWebsiteContent'' a # post
          \<and> SendMessage w [[Text (prompt @ LimitConditionPrompt)],
               [FunctionResponse ''fetchWebsiteContent'' [''content'' \<mapsto> AString data]]]
             = Inr resp'
          \<longrightarrow> Chat_first w prompt e =
                (Return (ret, None),
                 e\<lparr>model_calls := model_calls e @
                     [[Text (prompt @ LimitConditionPrompt)],
                      [FunctionResponse ''fetchWebsiteContent'' [''content'' \<mapsto> AString data]]],
                   fetches := fetches e @ [url]\<rparr>))
       \<and> (Parts ct = pre @ FunctionCall ''fetchWebsiteContent'' a # post
          \<and> \<not> list_ex isFetchCall (pre @ post)
          \<and> SendMessage w [[Text (prompt @ LimitConditionPrompt)],
               [FunctionResponse ''fetchWebisiteContent'' [''content'' \<mapsto> AString data]]]
             = Inr resp'
          \<longrightarrow> Chat_accum w prompt e =
                (Return (ret, None),
                 e\<lparr>model_calls := model_calls e @
                     [[Text (prompt @ LimitConditionPrompt)],
                      [FunctionResponse ''fetchWebisiteContent'' [''content'' \<mapsto> AString data]]],
                   fetches := fetches e @ [url]\<rparr>)
              \<and> (UsageMetadata resp \<noteq> None \<and> UsageMetadata resp' \<noteq> None \<longrightarrow>
                   Chat_traced w prompt e =
                     (Return (ret, None),
                      e\<lparr>model_calls := model_calls e @
                          [[Text (prompt @ LimitConditionPrompt)],
                           [FunctionResponse ''fetchWebisiteContent''
                              [''content'' \<mapsto> AString data]]],
                        fetches := fetches e @ [url]\<rparr>)))"
proof (intro conjI impI)
  have second: "Candidates0_Content_Parts resp' = Return (Text ret # ps')"
    using first_parts [OF assms(6,7)] assms(8) by simp
  assume h: "Parts ct = FunctionCall ''fetchWebsiteContent'' a # post
          \<and> SendMessage w [[Text (prompt @ LimitConditionPrompt)],
               [FunctionResponse ''fetchWebsiteContent'' [''content'' \<mapsto> AString data]]]
             = Inr resp'"
  then have "Candidates0_Content_Parts resp
             = Return (FunctionCall ''fetchWebsiteContent'' a # post)"
    using first_parts [OF assms(2,3)] by simp
  then show "Chat_first w prompt e =
                (Return (ret, None),
                 e\<lparr>model_calls := model_calls e @
                     [[Text (prompt @ LimitConditionPrompt)],
                      [FunctionResponse ''fetchWebsiteContent'' [''content'' \<mapsto> AString data]]],
                   fetches := fetches e @ [url]\<rparr>)"
    using h assms(1,2,4,5) second by (simp add: Chat_first_def fetchWebsiteContentFunc_def)
next
  have second: "Candidates0_Content_Parts resp' = Return (Text ret # ps')"
    using first_parts [OF assms(6,7)] assms(8) by simp
  assume h: "Parts ct = pre @ FunctionCall ''fetchWebsiteContent'' a # post
          \<and> \<not> list_ex isFetchCall (pre @ post)
          \<and> SendMessage w [[Text (prompt @ LimitConditionPrompt)],
               [FunctionResponse ''fetchWebisiteContent'' [''content'' \<mapsto> AString data]]]
             = Inr resp'"
  then have nf: "\<not> list_ex isFetchCall (pre @ post)" by simp
  have tool: "handleFunctionCalls w (pre @ FunctionCall ''fetchWebsiteContent'' a # post) e' =
         (Inr [FunctionResponse ''fetchWebisiteContent'' [''content'' \<mapsto> AString data]],
          e'\<lparr>fetches := fetches e' @ [url]\<rparr>)" for e'
    using nf assms(4,5) by (rule handleFunctionCalls_one)
  have first: "Candidates0_Content_Parts resp
               = Return (pre @ FunctionCall ''fetchWebsiteContent'' a # post)"
    using first_parts [OF assms(2,3)] h by simp
  show "Chat_accum w prompt e =
                (Return (ret, None),
                 e\<lparr>model_calls := model_calls e @
                     [[Text (prompt @ LimitConditionPrompt)],
                      [FunctionResponse ''fetchWebisiteContent'' [''content'' \<mapsto> AString data]]],
                   fetches := fetches e @ [url]\<rparr>)"
    using h assms(1,2) tool first second by (simp add: Chat_accum_def)
  assume "UsageMetadata resp \<noteq> None \<and> UsageMetadata resp' \<noteq> None"
  then obtain u u' where "UsageMetadata resp = Some u" "UsageMetadata resp' = Some u'"
    by auto
  then show "Chat_traced w prompt e =
                (Return (ret, None),
                 e\<lparr>model_calls := model_calls e @
                     [[Text (prompt @ LimitConditionPrompt)],
                      [FunctionResponse ''fetchWebisiteContent'' [''content'' \<mapsto> AString data]]],
                   fetches := fetches e @ [url]\<rparr>)"
    using h assms(1,2) tool first second by (simp add: Chat_traced_def)
qed

theorem tool_call_two_turns_witness:
  "Chat_first
     (scripted_world
        (response [FunctionCall ''fetchWebsiteContent'' (url_args ''http://example.test'')])
        (response [Text ''done''])) ''hi'' no_effects =
     (Return (''done'', None),
      \<lparr>model_calls =
         [first_prompt ''hi'', [FunctionResponse ''fetchWebsiteContent'' (content_args ''PAGE'')]],
       fetches = [''http://example.test''], replies = []\<rparr>)
   \<and> Chat_accum
     (scripted_world
        (response [FunctionCall ''fetchWebsiteContent'' (url_args ''http://example.test'')])
        (response [Text ''done''])) ''hi'' no_effects =
     (Return (''done'', None),
      \<lparr>model_calls =
         [first_prompt ''hi'', [FunctionResponse ''fetchWebisiteContent'' (content_args ''PAGE'')]],
       fetches = [''http://example.test''], replies = []\<rparr>)
   \<and> Chat_traced
     (scripted_world
        (response [FunctionCall ''fetchWebsiteContent'' (url_args ''http://example.test'')])
        (response [Text ''done''])) ''hi'' no_effects =
     (Return (''done'', None),
      \<lparr>model_calls =
         [first_prompt ''hi'', [FunctionResponse ''fetchWebisiteContent'' (content_args ''PAGE'')]],
       fetches = [''http://example.test''], replies = []\<rparr>)"
  using tool_call_two_turns
    [where w = "scripted_world
        (response [FunctionCall ''fetchWebsiteContent'' (url_args ''http://example.test'')])
        (response [Text ''done''])"
       and prompt = "''hi''"
       and resp = "response
          [FunctionCall ''fetchWebsiteContent'' (url_args ''http://example.test'')]"
       and c = "\<lparr>Candidate_Content = Some \<lparr>Parts =
          [FunctionCall ''fetchWebsiteContent'' (url_args ''http://example.test'')]\<rparr>\<rparr>"
       and ct = "\<lparr>Parts =
          [FunctionCall ''fetchWebsiteContent'' (url_args ''http://example.test'')]\<rparr>"
       and cs = "[]" and a = "url_args ''http://example.test''"
       and url = "''http://example.test''" and data = "''PAGE''"
       and resp' = "response [Text ''done'']"
       and c' = "\<lparr>Candidate_Content = Some \<lparr>Parts = [Text ''done'']\<rparr>\<rparr>" and cs' = "[]"
       and ct' = "\<lparr>Parts = [Text ''done'']\<rparr>"
       and ret = "''done''" and ps' = "[]" and pre = "[]" and post = "[]"
       and e = no_effects]
  by (simp add: scripted_world_def response_def candidate_def no_effects_def first_prompt_def
        url_args_def content_args_def)

subsection \<open>C6: a message that does not mention the bot\<close>

text \<open>
  C6. For every incoming message whose mentioned-user identities do not include the
  bot's own identity, the message filter skips the message: the handler returns with
  the effects unchanged, so no model call is made, nothing is fetched and no reply is
  sent. This holds whichever \<^verbatim>\<open>Chat\<close> the handler would call.
\<close>

theorem not_mentioned_skips:
  assumes "State_User_ID s \<notin> set (map ID (Mentions m))"
  shows "MessageCreateHandler chat w s m e = (Return (), e)"
  using assms by (auto simp: MessageCreateHandler_def list_ex_iff)

theorem not_mentioned_skips_witness:
  "State_User_ID gemini_bot \<notin> set (map ID (Mentions message_to_other))
   \<and> MessageCreateHandler Chat_first (scripted_world (response [Text ''hello'']) no_candidates) gemini_bot
       message_to_other no_effects = (Return (), no_effects)"
proof -
  have h: "State_User_ID gemini_bot \<notin> set (map ID (Mentions message_to_other))"
    by (simp add: gemini_bot_def message_to_other_def)
  from h not_mentioned_skips [OF h] show ?thesis by simp
qed

subsection \<open>C7: the cleaned prompt\<close>

text \<open>
  C7. For every message text addressed to the bot, the cleaned prompt (the text the
  handler passes to \<^verbatim>\<open>Chat\<close>) equals the original text with every substring matching
  the pattern \<^verbatim>\<open><@\<close>, one or more digits, \<^verbatim>\<open>>\<close> removed, all other characters
  preserved in their original order: the handler behaves as if it called \<^verbatim>\<open>Chat\<close> on
  \<open>without_mentions\<close> of the message text. The equation behind it is
  \<open>ReplaceAllString_removes_mentions\<close>.
\<close>

theorem cleaned_prompt:
  assumes "State_User_ID s \<in> set (map ID (Mentions m))"
  shows "MessageCreateHandler chat w s m e =
           (case chat w (without_mentions (Content m)) e of
              (Panic, e') \<Rightarrow> (Panic, e')
            | (Return (resp, err), e') \<Rightarrow>
                (Return (), e'\<lparr>replies := replies e' @ [(ChannelID m, resp)]\<rparr>))"
proof -
  from assms have "list_ex (\<lambda>u. State_User_ID s = ID u) (Mentions m)"
    by (auto simp: list_ex_iff)
  then show ?thesis
    by (simp add: MessageCreateHandler_def ReplaceAllString_removes_mentions)
qed

theorem cleaned_prompt_witness:
  "State_User_ID gemini_bot \<in> set (map ID (Mentions message_to_bot))
   \<and> without_mentions (Content message_to_bot) = '' hi''
   \<and> MessageCreateHandler Chat_first (scripted_world (response [Text ''hello'']) no_candidates) gemini_bot
       message_to_bot no_effects =
     (Return (),
      \<lparr>model_calls = [first_prompt '' hi''], fetches = [],
       replies = [(''general'', ''hello'')]\<rparr>)"
proof -
  have h: "State_User_ID gemini_bot \<in> set (map ID (Mentions message_to_bot))"
    by (simp add: gemini_bot_def message_to_bot_def)
  have clean: "without_mentions (Content message_to_bot) = '' hi''"
    by (simp add: ReplaceAllString_removes_mentions [symmetric] message_to_bot_def isDigit_def)
  have chat: "Chat_first (scripted_world (response [Text ''hello'']) no_candidates) '' hi'' no_effects =
     (Return (''hello'', None),
      \<lparr>model_calls = [first_prompt '' hi''], fetches = [], replies = []\<rparr>)"
    by (simp add: Chat_first_def Candidates0_Content_Parts_def scripted_world_def response_def
          candidate_def no_effects_def first_prompt_def)
  have "ChannelID message_to_bot = ''general''"
    by (simp add: message_to_bot_def)
  with h clean chat
    cleaned_prompt [OF h, of Chat_first "scripted_world (response [Text ''hello'']) no_candidates"
      no_effects]
  show ?thesis by simp
qed

text \<open>
  The removal is one pass over the original text: bytes around a removed mention can
  join into a new substring that matches the pattern, and it stays.
\<close>

lemma removal_is_one_pass:
  "ReplaceAllString_mentionPtn ''<@<@1>2>'' = ''<@2>''"
  by (simp add: isDigit_def)

subsection \<open>C8: a tool call without a string url\<close>

text \<open>
  C8. For every \<^verbatim>\<open>fetchWebsiteContent\<close> tool call whose argument map has no
  \<^verbatim>\<open>url\<close> key, or whose \<^verbatim>\<open>url\<close> value is not a string, the tool invocation fails with
  \<open>ArgumentTypeError\<close> and no HTTP GET is performed: the effects are returned
  unchanged.
\<close>

theorem fetch_bad_url_argument:
  assumes "a ''url'' = None \<or> (\<exists>v. a ''url'' = Some v \<and> (\<forall>u. v \<noteq> AString u))"
  shows "fetchWebsiteContentFunc w a e = (Inl ArgumentTypeError, e)"
  using assms by (auto simp: fetchWebsiteContentFunc_def split: option.splits any.splits)

theorem fetch_bad_url_argument_witness:
  "fetchWebsiteContentFunc page_world no_args no_effects = (Inl ArgumentTypeError, no_effects)
   \<and> fetchWebsiteContentFunc page_world number_args no_effects
       = (Inl ArgumentTypeError, no_effects)"
  using fetch_bad_url_argument [where a = no_args and w = page_world and e = no_effects]
        fetch_bad_url_argument [where a = number_args and w = page_world and e = no_effects]
  by (simp add: no_args_def number_args_def)


subsection \<open>C9: the empty success\<close>




subsection \<open>C10: an empty second response\<close>

text \<open>
  C10. The emptiness guard applies only to the first turn. Whenever a second model call
  is made (the tool loop returned function responses; the first part was a successful
  \<^verbatim>\<open>fetchWebsiteContent\<close> call) and the second response has zero candidates, or its
  first candidate has zero parts, \<^verbatim>\<open>Chat\<close> panics on
  \<^verbatim>\<open>resp2.Candidates[0].Content.Parts[0]\<close>, in all three revisions (the tracing
  revision panics there or, when the second response carries no usage metadata, just
  before, at the token counts).
\<close>

theorem second_turn_panics:
  assumes "SendMessage w [[Text (prompt @ LimitConditionPrompt)]] = Inr resp"
    and "Candidates resp = Some c # cs"
    and "Candidate_Content c = Some ct"
    and "Candidates resp' = []
         \<or> (\<exists>c' cs' ct'. Candidates resp' = Some c' # cs' \<and> Candidate_Content c' = Some ct'
               \<and> Parts ct' = [])"
  shows "(Parts ct \<noteq> []
          \<and> handleFunctionCalls w (Parts ct)
               (e\<lparr>model_calls := model_calls e @ [[Text (prompt @ LimitConditionPrompt)]]\<rparr>)
             = (Inr frs, eA)
          \<and> frs \<noteq> []
          \<and> SendMessage w [[Text (prompt @ LimitConditionPrompt)], frs] = Inr resp'
          \<longrightarrow> Chat_accum w prompt e = (Panic, eA\<lparr>model_calls := model_calls eA @ [frs]\<rparr>)
              \<and> (UsageMetadata resp \<noteq> None \<longrightarrow>
                   Chat_traced w prompt e =
                     (Panic, eA\<lparr>model_calls := model_calls eA @ [frs]\<rparr>)))
       \<and> (Parts ct = FunctionCall ''fetchWebsiteContent'' a # ps
          \<and> fetchWebsiteContentFunc w a
               (e\<lparr>model_calls := model_calls e @ [[Text (prompt @ LimitConditionPrompt)]]\<rparr>)
             = (Inr data, eF)
          \<and> SendMessage w [[Text (prompt @ LimitConditionPrompt)],
               [FunctionResponse ''fetchWebsiteContent'' [''content'' \<mapsto> AString data]]]
             = Inr resp'
          \<longrightarrow> Chat_first w prompt e =
                (Panic, eF\<lparr>model_calls := model_calls eF @
                   [[FunctionResponse ''fetchWebsiteContent'' [''content'' \<mapsto> AString data]]]\<rparr>))"
proof -
  have first: "Candidates0_Content_Parts resp = Return (Parts ct)"
    using assms(2,3) by (rule first_parts)
  have second: "Candidates0_Content_Parts resp' = Panic
                \<or> Candidates0_Content_Parts resp' = Return []"
    using assms(4) by (auto simp: Candidates0_Content_Parts_def)
  show ?thesis
    using assms(1,2) first second
    by (auto simp: Chat_accum_def Chat_traced_def Chat_first_def Let_def
          split: option.splits)
qed

theorem second_turn_panics_witness:
  "Chat_accum
     (scripted_world
        (response [FunctionCall ''fetchWebsiteContent'' (url_args ''http://example.test'')])
        no_candidates) ''hi'' no_effects =
     (Panic,
      \<lparr>model_calls =
         [first_prompt ''hi'', [FunctionResponse ''fetchWebisiteContent'' (content_args ''PAGE'')]],
       fetches = [''http://example.test''], replies = []\<rparr>)
   \<and> Chat_traced
     (scripted_world
        (response [FunctionCall ''fetchWebsiteContent'' (url_args ''http://example.test'')])
        no_candidates) ''hi'' no_effects =
     (Panic,
      \<lparr>model_calls =
         [first_prompt ''hi'', [FunctionResponse ''fetchWebisiteContent'' (content_args ''PAGE'')]],
       fetches = [''http://example.test''], replies = []\<rparr>)
   \<and> Chat_first
     (scripted_world
        (response [FunctionCall ''fetchWebsiteContent'' (url_args ''http://example.test'')])
        no_candidates) ''hi'' no_effects =
     (Panic,
      \<lparr>model_calls =
         [first_prompt ''hi'', [FunctionResponse ''fetchWebsiteContent'' (content_args ''PAGE'')]],
       fetches = [''http://example.test''], replies = []\<rparr>)
   \<and> Chat_accum
     (scripted_world
        (response [FunctionCall ''fetchWebsiteContent'' (url_args ''http://example.test'')])
        (response [])) ''hi'' no_effects =
     (Panic,
      \<lparr>model_calls =
         [first_prompt ''hi'', [FunctionResponse ''fetchWebisiteContent'' (content_args ''PAGE'')]],
       fetches = [''http://example.test''], replies = []\<rparr>)
   \<and> Chat_traced
     (scripted_world
        (response [FunctionCall ''fetchWebsiteContent'' (url_args ''http://example.test'')])
        (response [])) ''hi'' no_effects =
     (Panic,
      \<lparr>model_calls =
         [first_prompt ''hi'', [FunctionResponse ''fetchWebisiteContent'' (content_args ''PAGE'')]],
       fetches = [''http://example.test''], replies = []\<rparr>)
   \<and> Chat_first
     (scripted_world
        (response [FunctionCall ''fetchWebsiteContent'' (url_args ''http://example.test'')])
        (response [])) ''hi'' no_effects =
     (Panic,
      \<lparr>model_calls =
         [first_prompt ''hi'', [FunctionResponse ''fetchWebsiteContent'' (content_args ''PAGE'')]],
       fetches = [''http://example.test''], replies = []\<rparr>)"
  using second_turn_panics
    [where w = "scripted_world
        (response [FunctionCall ''fetchWebsiteContent'' (url_args ''http://example.test'')])
        no_candidates"
       and prompt = "''hi''"
       and resp = "response
          [FunctionCall ''fetchWebsiteContent'' (url_args ''http://example.test'')]"
       and c = "\<lparr>Candidate_Content = Some \<lparr>Parts =
          [FunctionCall ''fetchWebsiteContent'' (url_args ''http://example.test'')]\<rparr>\<rparr>"
       and ct = "\<lparr>Parts =
          [FunctionCall ''fetchWebsiteContent'' (url_args ''http://example.test'')]\<rparr>"
       and cs = "[]" and resp' = no_candidates
       and frs = "[FunctionResponse ''fetchWebisiteContent'' (content_args ''PAGE'')]"
       and e = no_effects
       and eA = "\<lparr>model_calls = [first_prompt ''hi''], fetches = [''http://example.test''],
                  replies = []\<rparr>"
       and a = "url_args ''http://example.test''" and ps = "[]" and data = "''PAGE''"
       and eF = "\<lparr>model_calls = [first_prompt ''hi''], fetches = [''http://example.test''],
                  replies = []\<rparr>"]
    second_turn_panics
    [where w = "scripted_world
        (response [FunctionCall ''fetchWebsiteContent'' (url_args ''http://example.test'')])
        (response [])"
       and prompt = "''hi''"
       and resp = "response
          [FunctionCall ''fetchWebsiteContent'' (url_args ''http://example.test'')]"
       and c = "\<lparr>Candidate_Content = Some \<lparr>Parts =
          [FunctionCall ''fetchWebsiteContent'' (url_args ''http://example.test'')]\<rparr>\<rparr>"
       and ct = "\<lparr>Parts =
          [FunctionCall ''fetchWebsiteContent'' (url_args ''http://example.test'')]\<rparr>"
       and cs = "[]" and resp' = "response []"
       and frs = "[FunctionResponse ''fetchWebisiteContent'' (content_args ''PAGE'')]"
       and e = no_effects
       and eA = "\<lparr>model_calls = [first_prompt ''hi''], fetches = [''http://example.test''],
                  replies = []\<rparr>"
       and a = "url_args ''http://example.test''" and ps = "[]" and data = "''PAGE''"
       and eF = "\<lparr>model_calls = [first_prompt ''hi''], fetches = [''http://example.test''],
                  replies = []\<rparr>"]
  by (simp add: scripted_world_def response_def no_candidates_def candidate_def no_effects_def
        first_prompt_def url_args_def content_args_def handleFunctionCalls_def
        fetchWebsiteContentFunc_def)

end
